theory Spec2Isabelle
  imports Main
begin

section \<open>Common data: errors, device kinds, memory and compute places\<close>

text \<open>
  The runtime has two ways of stopping: \<open>FatalErrorHandler::failIf(true, msg)\<close>, which
  prints the message and aborts, and a failed \<open>assert\<close> of a debug build. Both are
  values of \<open>error\<close>; a function that can stop returns \<open>error + 'a\<close>. A read
  outside an array is \<open>UndefinedBehaviour\<close>.
\<close>

datatype error = FatalError string | AssertionFailed string | UndefinedBehaviour string

text \<open>
  The enumeration \<open>nanos6_device_t\<close> is declared in a header that is not among the
  sources. The sources name four of its kinds (host and cluster in
  ExecutionWorkflow.cpp, cuda and openacc in SchedulerInterface.cpp); any further kind
  of the header is \<open>nanos6_other_device n\<close>. The integer value of a kind, by which
  arrays are indexed, is not known either: where it matters a function takes the
  numbering as its argument \<open>deviceValue\<close>.
\<close>

datatype nanos6_device_t =
    nanos6_host_device
  | nanos6_cuda_device
  | nanos6_openacc_device
  | nanos6_cluster_device
  | nanos6_other_device nat

text \<open>
  A memory place is used through its address (pointer comparisons), \<open>getType()\<close> and
  \<open>getIndex()\<close>; a compute place through \<open>getType()\<close>. A pointer that may be
  \<open>nullptr\<close> is an \<open>option\<close>.
\<close>

record MemoryPlace =
  mp_addr :: nat
  mp_index :: int
  mp_type :: nanos6_device_t

record ComputePlace =
  cp_addr :: nat
  cp_type :: nanos6_device_t

text \<open>
  What \<open>createDataCopyStep\<close> reads of the cluster manager and of the directory: the
  directory's sentinel memory place, the cluster-mode flag and the memory node of the
  current process.
\<close>

record ClusterEnv =
  directoryMemoryPlace :: MemoryPlace
  inClusterMode :: bool
  currentMemoryNode :: MemoryPlace

definition isDirectoryMemoryPlace :: "ClusterEnv \<Rightarrow> MemoryPlace option \<Rightarrow> bool" where
  "isDirectoryMemoryPlace env mp = (mp = Some (directoryMemoryPlace env))"

section \<open>Data accesses and workflow steps\<close>

datatype DataAccessType =
    READ_ACCESS_TYPE
  | WRITE_ACCESS_TYPE
  | READWRITE_ACCESS_TYPE
  | CONCURRENT_ACCESS_TYPE
  | COMMUTATIVE_ACCESS_TYPE
  | REDUCTION_ACCESS_TYPE

type_synonym DataAccessRegion = "nat \<times> nat"

record DataAccess =
  accessType :: DataAccessType
  accessWeak :: bool
  accessRegion :: DataAccessRegion
  accessLocation :: "MemoryPlace option"
  outputLocation :: "MemoryPlace option"
  validNamespaceSelf :: "int option"

text \<open>
  The steps of a workflow. \<open>Step\<close> is the base class, whose action does nothing (the
  null step); the notification steps carry their callback, of an arbitrary type
  \<open>'cb\<close>.
\<close>

datatype 'cb Step =
    Step
  | ClusterDataCopyStep "MemoryPlace option" MemoryPlace DataAccessRegion
  | HostExecutionStep nat ComputePlace
  | ClusterExecutionStep nat ComputePlace
  | HostNotificationStep 'cb
  | ClusterNotificationStep 'cb

section \<open>The transfer table and createDataCopyStep\<close>

datatype data_transfer_function_t = nullCopy | clusterCopy

text \<open>
  \<open>_transfersMap\<close> (lines 30-36): an array of four rows of four entries, read as
  \<open>_transfersMap[sourceType][targetType]\<close>. The comment of the table labels the rows and
  the columns host, cuda, opencl, cluster.
\<close>

definition transfersMap :: "data_transfer_function_t list list" where
  "transfersMap =
     [ [nullCopy,    nullCopy, nullCopy, clusterCopy],
       [nullCopy,    nullCopy, nullCopy, nullCopy],
       [nullCopy,    nullCopy, nullCopy, nullCopy],
       [clusterCopy, nullCopy, nullCopy, clusterCopy] ]"

text \<open>The entry at a row and a column, if the table has it.\<close>

definition transfersMapAt :: "nat \<Rightarrow> nat \<Rightarrow> data_transfer_function_t option" where
  "transfersMapAt i j =
     (if i < length transfersMap \<and> j < length (transfersMap ! i)
      then Some (transfersMap ! i ! j)
      else None)"

text \<open>
  Modelled from the spec: the bodies of \<open>nullCopy\<close> and \<open>clusterCopy\<close>
  (ExecutionWorkflowHost.hpp and ExecutionWorkflowCluster.hpp) are not among the sources.
  By the spec a null copy is the \<open>Null\<close> step, immediately satisfied, and a cluster copy
  is a \<open>ClusterDataCopy\<close> step from the source to the target over the region.
\<close>

fun runTransfer ::
  "data_transfer_function_t \<Rightarrow> MemoryPlace option \<Rightarrow> MemoryPlace \<Rightarrow> DataAccessRegion \<Rightarrow> 'cb Step"
where
  "runTransfer nullCopy src tgt region = Step"
| "runTransfer clusterCopy src tgt region = ClusterDataCopyStep src tgt region"

text \<open>The kind under which a source is looked up: a null source counts as host
  (lines 70-71).\<close>

definition sourceTypeOf :: "MemoryPlace option \<Rightarrow> nanos6_device_t" where
  "sourceTypeOf src = (case src of None \<Rightarrow> nanos6_host_device | Some s \<Rightarrow> mp_type s)"

text \<open>
  \<open>WorkflowBase::createDataCopyStep\<close> (lines 38-100). It returns the step and the
  access, which it may have changed through \<open>setValidNamespaceSelf\<close>. The two
  assertions on the target are branches of their own, and so is a lookup outside the
  table. The instrumentation calls at entry and exit do not act on the result and are
  left out.
\<close>

definition createDataCopyStep ::
  "(nanos6_device_t \<Rightarrow> nat) \<Rightarrow> ClusterEnv \<Rightarrow> MemoryPlace option \<Rightarrow> MemoryPlace option
     \<Rightarrow> DataAccessRegion \<Rightarrow> DataAccess \<Rightarrow> bool \<Rightarrow> error + ('cb Step \<times> DataAccess)"
where
  "createDataCopyStep deviceValue env sourceMemoryPlace targetMemoryPlace region access
       isTaskwait =
     (if accessType access = REDUCTION_ACCESS_TYPE
         \<or> accessType access = COMMUTATIVE_ACCESS_TYPE
         \<or> accessType access = CONCURRENT_ACCESS_TYPE
      then Inr (Step, access)
      else case targetMemoryPlace of
        None \<Rightarrow> Inl (AssertionFailed ''targetMemoryPlace != nullptr'')
      | Some tgt \<Rightarrow>
          if isDirectoryMemoryPlace env targetMemoryPlace
          then Inl (AssertionFailed ''!Directory::isDirectoryMemoryPlace(targetMemoryPlace)'')
          else
            let sourceType = sourceTypeOf sourceMemoryPlace;
                targetType = mp_type tgt;
                access' =
                  (if targetType = nanos6_host_device \<or> tgt = currentMemoryNode env
                   then access\<lparr>validNamespaceSelf := Some (mp_index (currentMemoryNode env))\<rparr>
                   else access)
            in if isDirectoryMemoryPlace env sourceMemoryPlace \<and> inClusterMode env
               then Inr (runTransfer clusterCopy sourceMemoryPlace tgt region, access')
               else case transfersMapAt (deviceValue sourceType) (deviceValue targetType) of
                      None \<Rightarrow> Inl (UndefinedBehaviour ''_transfersMap[sourceType][targetType]'')
                    | Some transfer \<Rightarrow>
                        Inr (runTransfer transfer sourceMemoryPlace tgt region, access'))"

text \<open>
  A numbering of the kinds for concrete runs: host, cuda, openacc and cluster are 0 to 3,
  so that host and cluster fall on the rows and columns that the table labels with
  them; the other kinds follow.
\<close>

fun labelOrderValue :: "nanos6_device_t \<Rightarrow> nat" where
  "labelOrderValue nanos6_host_device = 0"
| "labelOrderValue nanos6_cuda_device = 1"
| "labelOrderValue nanos6_openacc_device = 2"
| "labelOrderValue nanos6_cluster_device = 3"
| "labelOrderValue (nanos6_other_device n) = 4 + n"

section \<open>createExecutionStep and createNotificationStep\<close>

text \<open>\<open>WorkflowBase::createExecutionStep\<close> (lines 102-116); the task is its id.\<close>

definition createExecutionStep :: "nat \<Rightarrow> ComputePlace \<Rightarrow> error + 'cb Step" where
  "createExecutionStep task computePlace =
     (case cp_type computePlace of
        nanos6_host_device \<Rightarrow> Inr (HostExecutionStep task computePlace)
      | nanos6_cluster_device \<Rightarrow> Inr (ClusterExecutionStep task computePlace)
      | _ \<Rightarrow> Inl (FatalError ''Execution workflow does not support this device yet''))"

text \<open>\<open>WorkflowBase::createNotificationStep\<close> (lines 118-138).\<close>

definition createNotificationStep :: "'cb \<Rightarrow> ComputePlace option \<Rightarrow> error + 'cb Step" where
  "createNotificationStep callback computePlace =
     (let type = (case computePlace of
                    None \<Rightarrow> nanos6_host_device
                  | Some cp \<Rightarrow> cp_type cp)
      in case type of
           nanos6_host_device \<Rightarrow> Inr (HostNotificationStep callback)
         | nanos6_cluster_device \<Rightarrow> Inr (ClusterNotificationStep callback)
         | _ \<Rightarrow> Inl (FatalError ''Execution workflow does not support this device yet''))"

section \<open>The notification callback of executeTask\<close>

text \<open>
  What the callback does is a sequence of calls into the task, the dependency registrar
  and the finalisation code, and one \<open>delete\<close>. The calls are recorded as events, in
  the order in which they are made; \<open>markAsFinished\<close> and \<open>markAsReleased\<close> carry the
  value they returned.
\<close>

datatype DependencyData = LocalDependencyData | CPUDependencyDataOf nat

datatype event =
    UnregisterLocallyPropagatedTaskDataAccesses "nat option" DependencyData
  | MarkAsFinished "nat option" bool
  | UnregisterTaskDataAccesses "nat option" DependencyData "MemoryPlace option"
  | TaskFinished "nat option"
  | MarkAsReleased bool
  | DisposeTask
  | PropagateSatisfiability
  | DeleteWorkflow nat

text \<open>
  The heap as far as the callback touches it: the workflow objects that are allocated,
  and the task's own pointer to its workflow (\<open>Task::getWorkflow()\<close>).
\<close>

record TaskHeap =
  liveWorkflows :: "nat set"
  taskWorkflow :: "nat option"

text \<open>
  The CPU of the callback: that of the current worker thread, null when there is no
  current worker thread (lines 283-286). The current worker thread is given as
  \<open>None\<close> when there is none, otherwise as its compute place, itself possibly null.
\<close>

definition currentCPU :: "nat option option \<Rightarrow> nat option" where
  "currentCPU currThread = (case currThread of None \<Rightarrow> None | Some c \<Rightarrow> c)"

text \<open>The dependency data of lines 288-290: a local one without a CPU.\<close>

definition hpDependencyData :: "nat option \<Rightarrow> DependencyData" where
  "hpDependencyData cpu = (case cpu of None \<Rightarrow> LocalDependencyData | Some c \<Rightarrow> CPUDependencyDataOf c)"

text \<open>
  The finalisation lambda handed to the registrar (lines 315-322); \<open>released\<close> is the
  value that \<open>task->markAsReleased()\<close> returns.
\<close>

definition taskFinalization :: "nat option \<Rightarrow> bool \<Rightarrow> event list" where
  "taskFinalization cpu released =
     [TaskFinished cpu, MarkAsReleased released] @ (if released then [DisposeTask] else [])"

text \<open>
  Modelled from the spec: \<open>DataAccessRegistration::unregisterTaskDataAccesses\<close> is not
  among the sources. By the spec (4.4, step 4) the registrar unregisters the accesses of
  the task, runs the finalisation callback it was given, and only then propagates
  satisfiability to the successors.
\<close>

definition unregisterTaskDataAccesses ::
  "nat option \<Rightarrow> DependencyData \<Rightarrow> MemoryPlace option \<Rightarrow> event list \<Rightarrow> event list"
where
  "unregisterTaskDataAccesses cpu depData location finalization =
     UnregisterTaskDataAccesses cpu depData location # finalization @ [PropagateSatisfiability]"

text \<open>
  The callback of the notification step (lines 282-326). \<open>workflow\<close> is the workflow
  captured by the lambda, \<open>finished\<close> the value returned by \<open>task->markAsFinished(cpu)\<close>.
  It returns the calls it made and the heap it leaves.
\<close>

definition notificationCallback ::
  "nat \<Rightarrow> MemoryPlace option \<Rightarrow> nat option option \<Rightarrow> bool \<Rightarrow> bool \<Rightarrow> TaskHeap
     \<Rightarrow> event list \<times> TaskHeap"
where
  "notificationCallback workflow targetMemoryPlace currThread finished released heap =
     (let cpu = currentCPU currThread;
          depData = hpDependencyData cpu
      in ([UnregisterLocallyPropagatedTaskDataAccesses cpu depData, MarkAsFinished cpu finished]
          @ (if finished
             then unregisterTaskDataAccesses cpu depData targetMemoryPlace
                    (taskFinalization cpu released)
             else [])
          @ [DeleteWorkflow workflow],
          heap\<lparr>liveWorkflows := liveWorkflows heap - {workflow}\<rparr>))"

text \<open>\<open>occursBefore a b es\<close>: \<open>a\<close> is among the events that come before the first \<open>b\<close>.\<close>

definition occursBefore :: "event \<Rightarrow> event \<Rightarrow> event list \<Rightarrow> bool" where
  "occursBefore a b es = (a \<in> set (takeWhile (\<lambda>e. e \<noteq> b) es))"

section \<open>The constructor of SchedulerInterface\<close>

datatype SchedulingPolicy = FIFO_POLICY | LIFO_POLICY

text \<open>The preprocessor symbols that select code in the constructor.\<close>

record BuildConfig =
  USE_CUDA :: bool
  USE_OPENACC :: bool
  NANOS6_OPENCL :: bool
  USE_FPGA :: bool

text \<open>
  What the constructor reads: the three environment variables (lines 17-19) and the
  counts of compute places.
\<close>

record SchedulerEnv =
  schedulingPolicyVar :: string
  enableImmediateSuccessorVar :: bool
  enablePriorityVar :: bool
  totalCPUs :: nat
  cudaComputePlaces :: nat
  openaccComputePlaces :: nat

text \<open>A scheduler made by \<open>SchedulerGenerator\<close> is known by the arguments it was made
  with.\<close>

record SchedulerArgs =
  computePlaceCount :: nat
  schedPolicy :: SchedulingPolicy
  schedEnablePriority :: bool
  schedEnableImmediateSuccessor :: bool

record SchedulerInterface =
  runtimeInfo :: "(string \<times> string \<times> string) list"
  hostScheduler :: SchedulerArgs
  cudaScheduler :: "SchedulerArgs option"
  openaccScheduler :: "SchedulerArgs option"

text \<open>Lines 26-29: the policy is FIFO unless the value is \<open>LIFO\<close> or \<open>lifo\<close>.\<close>

definition policyOf :: "string \<Rightarrow> SchedulingPolicy" where
  "policyOf v = (if v = ''LIFO'' \<or> v = ''lifo'' then LIFO_POLICY else FIFO_POLICY)"

text \<open>\<open>SchedulerInterface::SchedulerInterface\<close> (lines 22-63).\<close>

definition newSchedulerInterface :: "BuildConfig \<Rightarrow> SchedulerEnv \<Rightarrow> error + SchedulerInterface" where
  "newSchedulerInterface build env =
     (let policy = policyOf (schedulingPolicyVar env);
          mk = (\<lambda>n. \<lparr>computePlaceCount = n, schedPolicy = policy,
                       schedEnablePriority = enablePriorityVar env,
                       schedEnableImmediateSuccessor = enableImmediateSuccessorVar env\<rparr>)
      in if NANOS6_OPENCL build then Inl (FatalError ''OpenCL is not supported yet.'')
         else if USE_FPGA build then Inl (FatalError ''FPGA is not supported yet.'')
         else Inr \<lparr>runtimeInfo =
                     [(''schedulingPolicy'', ''SchedulingPolicy'', schedulingPolicyVar env)],
                   hostScheduler = mk (totalCPUs env),
                   cudaScheduler =
                     (if USE_CUDA build then Some (mk (cudaComputePlaces env)) else None),
                   openaccScheduler =
                     (if USE_OPENACC build then Some (mk (openaccComputePlaces env)) else None)\<rparr>)"

section \<open>The leaf scheduler\<close>

type_synonym Task = nat

text \<open>
  Modelled from the spec: \<open>polling_slot_t\<close> (SchedulerInterface.hpp) is not among the
  sources. By the spec the polling slot is a cell for a single task; \<open>setTask\<close> fills
  an empty slot and reports success, and fails on a slot that is already full;
  \<open>getTask\<close> empties it.
\<close>

definition slot_setTask :: "Task option \<Rightarrow> Task \<Rightarrow> bool \<times> Task option" where
  "slot_setTask slot task = (case slot of None \<Rightarrow> (True, Some task) | Some _ \<Rightarrow> (False, slot))"

definition slot_getTask :: "Task option \<Rightarrow> Task option \<times> Task option" where
  "slot_getTask slot = (slot, None)"

text \<open>
  Modelled from the spec: the queue behind \<open>TreeSchedulerQueueInterface\<close> is not among
  the sources. By the spec it is a FIFO or LIFO queue; \<open>addTask\<close> returns the number
  of tasks after the insertion; \<open>getTaskBatch n\<close> removes \<open>n\<close> tasks, or all of them
  when there are fewer (and all of them for \<open>-1\<close>, as \<open>disable\<close> asks), from the end
  opposite to the one \<open>getTask\<close> takes from. The queue is the list of its tasks in
  order of arrival; priorities are not modelled.
\<close>

definition queue_addTask :: "Task list \<Rightarrow> Task \<Rightarrow> 'h \<Rightarrow> Task list \<times> nat" where
  "queue_addTask q task hint = (q @ [task], length q + 1)"

definition queue_addTaskBatch :: "Task list \<Rightarrow> Task list \<Rightarrow> Task list" where
  "queue_addTaskBatch q taskBatch = q @ taskBatch"

definition queue_getTask :: "SchedulingPolicy \<Rightarrow> Task list \<Rightarrow> Task option \<times> Task list" where
  "queue_getTask policy q =
     (if q = [] then (None, q)
      else case policy of
             FIFO_POLICY \<Rightarrow> (Some (hd q), tl q)
           | LIFO_POLICY \<Rightarrow> (Some (last q), butlast q))"

definition queue_getTaskBatch :: "SchedulingPolicy \<Rightarrow> int \<Rightarrow> Task list \<Rightarrow> Task list \<times> Task list" where
  "queue_getTaskBatch policy elements q =
     (let k = (if elements < 0 then length q else min (nat elements) (length q))
      in case policy of
           FIFO_POLICY \<Rightarrow> (drop (length q - k) q, take (length q - k) q)
         | LIFO_POLICY \<Rightarrow> (take k q, drop k q))"

text \<open>
  The leaf (LeafScheduler.hpp, lines 21-36). The parent is seen through the batches
  handed to \<open>_parent->addTaskBatch\<close>, in order, and the thread manager through the number
  of calls of \<open>ThreadManager::resumeIdle\<close>.
\<close>

record LeafScheduler =
  queueThreshold :: nat
  rebalance :: bool
  pollingSlot :: "Task option"
  queue :: "Task list"
  queuePolicy :: SchedulingPolicy
  idle :: bool
  parentBatches :: "Task list list"
  resumeIdleCalls :: nat

text \<open>\<open>LeafScheduler::handleQueueOverflow\<close> (lines 38-51).\<close>

definition handleQueueOverflow :: "LeafScheduler \<Rightarrow> LeafScheduler" where
  "handleQueueOverflow l =
     (let th0 = queueThreshold l div 2;
          th = (if th0 = 0 then 1 else th0);
          (taskBatch, q') = queue_getTaskBatch (queuePolicy l) (int th) (queue l);
          l' = l\<lparr>queue := q'\<rparr>
      in if length taskBatch > 0
         then l'\<lparr>parentBatches := parentBatches l' @ [taskBatch]\<rparr>
         else l')"

text \<open>The insertion into the queue with its overflow check (lines 79-83 and 100-104).\<close>

definition enqueueTask :: "Task \<Rightarrow> 'h \<Rightarrow> LeafScheduler \<Rightarrow> LeafScheduler" where
  "enqueueTask task hint l =
     (let (q', elements) = queue_addTask (queue l) task hint;
          l' = l\<lparr>queue := q'\<rparr>
      in if elements > queueThreshold l' then handleQueueOverflow l' else l')"

text \<open>\<open>LeafScheduler::addTask\<close> (lines 71-110).\<close>

definition addTask :: "Task \<Rightarrow> bool \<Rightarrow> 'h \<Rightarrow> LeafScheduler \<Rightarrow> error + LeafScheduler" where
  "addTask task hasComputePlace hint l =
     (if hasComputePlace
      then (if idle l then Inl (AssertionFailed ''!_idle'')
            else Inr ((enqueueTask task hint l)\<lparr>rebalance := False\<rparr>))
      else
        let (success, slot') = slot_setTask (pollingSlot l) task;
            wasIdle = idle l;
            l' = l\<lparr>pollingSlot := slot'\<rparr>
        in if success
           then Inr ((if wasIdle then l'\<lparr>resumeIdleCalls := resumeIdleCalls l' + 1\<rparr> else l')
                       \<lparr>rebalance := False\<rparr>)
           else Inr ((enqueueTask task hint l')\<lparr>rebalance := False\<rparr>))"

text \<open>
  \<open>LeafScheduler::addTaskBatch\<close> (lines 112-136); \<open>whoIsParent\<close> is the value of
  \<open>who == _parent\<close>.
\<close>

definition addTaskBatch :: "bool \<Rightarrow> Task list \<Rightarrow> LeafScheduler \<Rightarrow> error + LeafScheduler" where
  "addTaskBatch whoIsParent taskBatch l =
     (if \<not> length taskBatch > 0 then Inl (AssertionFailed ''taskBatch.size() > 0'')
      else if \<not> whoIsParent then Inl (AssertionFailed ''who == _parent'')
      else
        let task = last taskBatch;
            (success, slot') = slot_setTask (pollingSlot l) task;
            wasIdle = idle l;
            l' = l\<lparr>pollingSlot := slot'\<rparr>;
            taskBatch' = (if success then butlast taskBatch else taskBatch);
            l'' = (if success \<and> wasIdle then l'\<lparr>resumeIdleCalls := resumeIdleCalls l' + 1\<rparr>
                   else l')
        in Inr (l''\<lparr>queue := queue_addTaskBatch (queue l'') taskBatch'\<rparr>))"

text \<open>\<open>LeafScheduler::updateQueueThreshold\<close> (lines 221-228).\<close>

definition updateQueueThreshold :: "nat \<Rightarrow> LeafScheduler \<Rightarrow> LeafScheduler" where
  "updateQueueThreshold t l =
     (if t < queueThreshold l then l\<lparr>rebalance := True\<rparr> else l)\<lparr>queueThreshold := t\<rparr>"

section \<open>Properties of the copy-step decision table\<close>

text \<open>The numbering \<open>labelOrderValue\<close> gives different kinds different values.\<close>

lemma inj_labelOrderValue: "inj labelOrderValue"
proof (rule injI)
  fix x y
  assume "labelOrderValue x = labelOrderValue y"
  then show "x = y" by (cases x; cases y; simp)
qed

text \<open>The entries of the table that are not \<open>nullCopy\<close>.\<close>

lemma transfersMapAt_inside:
  assumes "i < 4" and "j < 4"
  shows "transfersMapAt i j =
           Some (if (i = 0 \<and> j = 3) \<or> (i = 3 \<and> j = 0) \<or> (i = 3 \<and> j = 3)
                 then clusterCopy else nullCopy)"
proof -
  from assms have "i \<in> {0, 1, 2, 3}" and "j \<in> {0, 1, 2, 3}" by auto
  then show ?thesis
    by (auto simp add: transfersMapAt_def transfersMap_def)
qed

text \<open>
  C5. The table that \<open>createDataCopyStep\<close> consults, with a null source looked up
  as host. Let the numbering of the kinds put host on row and column 0 and cluster on
  row and column 3, as the table labels them, and let the kinds of the source and of the
  target index the table. Then, for an access that reaches the lookup, the step made is
  not the null step exactly for host to cluster, cluster to host and cluster to
  cluster, where it is the cluster copy from the source to the target; for every other
  pair the entry is \<open>nullCopy\<close> and the step is the null step.
\<close>

theorem createDataCopyStep_table_entries:
  fixes tgt :: MemoryPlace and src :: "MemoryPlace option"
  assumes numbering: "inj deviceValue"
      "deviceValue nanos6_host_device = 0" "deviceValue nanos6_cluster_device = 3"
    and inside: "deviceValue sourceKind < 4" "deviceValue (mp_type tgt) < 4"
    and source: "sourceKind = (case src of None \<Rightarrow> nanos6_host_device | Some m \<Rightarrow> mp_type m)"
    and plain: "accessType access \<noteq> REDUCTION_ACCESS_TYPE"
      "accessType access \<noteq> COMMUTATIVE_ACCESS_TYPE"
      "accessType access \<noteq> CONCURRENT_ACCESS_TYPE"
    and target: "\<not> isDirectoryMemoryPlace env (Some tgt)"
    and lookup: "\<not> (isDirectoryMemoryPlace env src \<and> inClusterMode env)"
  shows "\<exists>step access'.
           createDataCopyStep deviceValue env src (Some tgt) region access isTaskwait
             = Inr (step :: 'cb Step, access')
           \<and> (step \<noteq> Step) =
               ((sourceKind = nanos6_host_device \<and> mp_type tgt = nanos6_cluster_device)
                \<or> (sourceKind = nanos6_cluster_device \<and> mp_type tgt = nanos6_host_device)
                \<or> (sourceKind = nanos6_cluster_device \<and> mp_type tgt = nanos6_cluster_device))
           \<and> (step = Step) =
               (transfersMapAt (deviceValue sourceKind) (deviceValue (mp_type tgt))
                  = Some nullCopy)
           \<and> (step = Step \<or> step = ClusterDataCopyStep src tgt region)"
proof -
  let ?i = "deviceValue sourceKind" and ?j = "deviceValue (mp_type tgt)"
  let ?pairs = "(sourceKind = nanos6_host_device \<and> mp_type tgt = nanos6_cluster_device)
                \<or> (sourceKind = nanos6_cluster_device \<and> mp_type tgt = nanos6_host_device)
                \<or> (sourceKind = nanos6_cluster_device \<and> mp_type tgt = nanos6_cluster_device)"
  let ?entry = "if ?pairs then clusterCopy else nullCopy"
  have zero: "deviceValue k = 0 \<longleftrightarrow> k = nanos6_host_device" for k
    using numbering(1,2) by (metis injD)
  have three: "deviceValue k = 3 \<longleftrightarrow> k = nanos6_cluster_device" for k
    using numbering(1,3) by (metis injD)
  have "transfersMapAt ?i ?j =
          Some (if (?i = 0 \<and> ?j = 3) \<or> (?i = 3 \<and> ?j = 0) \<or> (?i = 3 \<and> ?j = 3)
                then clusterCopy else nullCopy)"
    using transfersMapAt_inside [OF inside] .
  then have entry: "transfersMapAt ?i ?j = Some ?entry"
    by (simp only: zero three)
  have kind: "sourceTypeOf src = sourceKind"
    using source by (simp add: sourceTypeOf_def)
  define access' where "access' =
     (if mp_type tgt = nanos6_host_device \<or> tgt = currentMemoryNode env
      then access\<lparr>validNamespaceSelf := Some (mp_index (currentMemoryNode env))\<rparr>
      else access)"
  have run: "createDataCopyStep deviceValue env src (Some tgt) region access isTaskwait
               = Inr (runTransfer ?entry src tgt region :: 'cb Step, access')"
    using plain target lookup entry kind
    by (auto simp add: createDataCopyStep_def Let_def access'_def)
  show ?thesis
  proof (cases ?pairs)
    case True
    then have "runTransfer ?entry src tgt region = (ClusterDataCopyStep src tgt region :: 'cb Step)"
      by simp
    with run entry True show ?thesis by auto
  next
    case False
    then have "runTransfer ?entry src tgt region = (Step :: 'cb Step)"
      by simp
    with run entry False show ?thesis by auto
  qed
qed

theorem createDataCopyStep_table_entries_witness:
  "inj labelOrderValue
   \<and> labelOrderValue nanos6_host_device = 0
   \<and> labelOrderValue nanos6_cluster_device = 3
   \<and> createDataCopyStep labelOrderValue
       \<lparr>directoryMemoryPlace = \<lparr>mp_addr = 0, mp_index = -42, mp_type = nanos6_host_device\<rparr>,
        inClusterMode = True,
        currentMemoryNode = \<lparr>mp_addr = 1, mp_index = 0, mp_type = nanos6_cluster_device\<rparr>\<rparr>
       (Some \<lparr>mp_addr = 2, mp_index = 1, mp_type = nanos6_cluster_device\<rparr>)
       (Some \<lparr>mp_addr = 5, mp_index = 0, mp_type = nanos6_host_device\<rparr>)
       (4096, 64)
       \<lparr>accessType = READ_ACCESS_TYPE, accessWeak = True,
        accessRegion = (4096, 64), accessLocation = None,
        outputLocation = None, validNamespaceSelf = None\<rparr>
       False
     = Inr (ClusterDataCopyStep (Some \<lparr>mp_addr = 2, mp_index = 1, mp_type = nanos6_cluster_device\<rparr>)
              \<lparr>mp_addr = 5, mp_index = 0, mp_type = nanos6_host_device\<rparr> (4096, 64) :: unit Step,
       \<lparr>accessType = READ_ACCESS_TYPE, accessWeak = True,
        accessRegion = (4096, 64), accessLocation = None,
        outputLocation = None, validNamespaceSelf = Some 0\<rparr>)
   \<and> createDataCopyStep labelOrderValue
       \<lparr>directoryMemoryPlace = \<lparr>mp_addr = 0, mp_index = -42, mp_type = nanos6_host_device\<rparr>,
        inClusterMode = True,
        currentMemoryNode = \<lparr>mp_addr = 1, mp_index = 0, mp_type = nanos6_cluster_device\<rparr>\<rparr>
       (Some \<lparr>mp_addr = 3, mp_index = 0, mp_type = nanos6_cuda_device\<rparr>)
       (Some \<lparr>mp_addr = 1, mp_index = 0, mp_type = nanos6_cluster_device\<rparr>)
       (4096, 64)
       \<lparr>accessType = READ_ACCESS_TYPE, accessWeak = True,
        accessRegion = (4096, 64), accessLocation = None,
        outputLocation = None, validNamespaceSelf = None\<rparr>
       False
     = Inr (Step :: unit Step,
       \<lparr>accessType = READ_ACCESS_TYPE, accessWeak = True,
        accessRegion = (4096, 64), accessLocation = None,
        outputLocation = None, validNamespaceSelf = Some 0\<rparr>)
   \<and> createDataCopyStep labelOrderValue
       \<lparr>directoryMemoryPlace = \<lparr>mp_addr = 0, mp_index = -42, mp_type = nanos6_host_device\<rparr>,
        inClusterMode = True,
        currentMemoryNode = \<lparr>mp_addr = 1, mp_index = 0, mp_type = nanos6_cluster_device\<rparr>\<rparr>
       None
       (Some \<lparr>mp_addr = 6, mp_index = 2, mp_type = nanos6_cluster_device\<rparr>)
       (4096, 64)
       \<lparr>accessType = READ_ACCESS_TYPE, accessWeak = True,
        accessRegion = (4096, 64), accessLocation = None,
        outputLocation = None, validNamespaceSelf = None\<rparr>
       False
     = Inr (ClusterDataCopyStep None \<lparr>mp_addr = 6, mp_index = 2, mp_type = nanos6_cluster_device\<rparr> (4096, 64) :: unit Step,
       \<lparr>accessType = READ_ACCESS_TYPE, accessWeak = True,
        accessRegion = (4096, 64), accessLocation = None,
        outputLocation = None, validNamespaceSelf = None\<rparr>)"
  using inj_labelOrderValue
    createDataCopyStep_table_entries
    [OF inj_labelOrderValue, of nanos6_cluster_device "\<lparr>mp_addr = 5, mp_index = 0, mp_type = nanos6_host_device\<rparr>"
        "Some \<lparr>mp_addr = 2, mp_index = 1, mp_type = nanos6_cluster_device\<rparr>"
        "\<lparr>accessType = READ_ACCESS_TYPE, accessWeak = True,
        accessRegion = (4096, 64), accessLocation = None,
        outputLocation = None, validNamespaceSelf = None\<rparr>"
        "\<lparr>directoryMemoryPlace = \<lparr>mp_addr = 0, mp_index = -42, mp_type = nanos6_host_device\<rparr>,
        inClusterMode = True,
        currentMemoryNode = \<lparr>mp_addr = 1, mp_index = 0, mp_type = nanos6_cluster_device\<rparr>\<rparr>"
        "(4096, 64)" False, where ?'cb = unit]
    createDataCopyStep_table_entries
    [OF inj_labelOrderValue, of nanos6_cuda_device "\<lparr>mp_addr = 1, mp_index = 0, mp_type = nanos6_cluster_device\<rparr>"
        "Some \<lparr>mp_addr = 3, mp_index = 0, mp_type = nanos6_cuda_device\<rparr>"
        "\<lparr>accessType = READ_ACCESS_TYPE, accessWeak = True,
        accessRegion = (4096, 64), accessLocation = None,
        outputLocation = None, validNamespaceSelf = None\<rparr>"
        "\<lparr>directoryMemoryPlace = \<lparr>mp_addr = 0, mp_index = -42, mp_type = nanos6_host_device\<rparr>,
        inClusterMode = True,
        currentMemoryNode = \<lparr>mp_addr = 1, mp_index = 0, mp_type = nanos6_cluster_device\<rparr>\<rparr>"
        "(4096, 64)" False, where ?'cb = unit]
    createDataCopyStep_table_entries
    [OF inj_labelOrderValue, of nanos6_host_device "\<lparr>mp_addr = 6, mp_index = 2, mp_type = nanos6_cluster_device\<rparr>"
        "None"
        "\<lparr>accessType = READ_ACCESS_TYPE, accessWeak = True,
        accessRegion = (4096, 64), accessLocation = None,
        outputLocation = None, validNamespaceSelf = None\<rparr>"
        "\<lparr>directoryMemoryPlace = \<lparr>mp_addr = 0, mp_index = -42, mp_type = nanos6_host_device\<rparr>,
        inClusterMode = True,
        currentMemoryNode = \<lparr>mp_addr = 1, mp_index = 0, mp_type = nanos6_cluster_device\<rparr>\<rparr>"
        "(4096, 64)" False, where ?'cb = unit]
  by (simp add: createDataCopyStep_def transfersMapAt_def transfersMap_def sourceTypeOf_def
      isDirectoryMemoryPlace_def Let_def)

text \<open>
  C6. For an access of type reduction, commutative or concurrent, \<open>createDataCopyStep\<close>
  returns the null step whatever the source and the target are (null and directory
  included), and leaves the access as it was: nothing is transferred and nothing is
  registered on it.
\<close>

theorem createDataCopyStep_special_access_null:
  assumes "accessType access = REDUCTION_ACCESS_TYPE
           \<or> accessType access = COMMUTATIVE_ACCESS_TYPE
           \<or> accessType access = CONCURRENT_ACCESS_TYPE"
  shows "createDataCopyStep deviceValue env src tgt region access isTaskwait
           = Inr (Step, access)"
  using assms by (simp add: createDataCopyStep_def)

theorem createDataCopyStep_special_access_null_witness:
  "accessType \<lparr>accessType = REDUCTION_ACCESS_TYPE, accessWeak = False,
        accessRegion = (4096, 64), accessLocation = None,
        outputLocation = None, validNamespaceSelf = None\<rparr> = REDUCTION_ACCESS_TYPE
   \<and> createDataCopyStep labelOrderValue
       \<lparr>directoryMemoryPlace = \<lparr>mp_addr = 0, mp_index = -42, mp_type = nanos6_host_device\<rparr>,
        inClusterMode = True,
        currentMemoryNode = \<lparr>mp_addr = 1, mp_index = 0, mp_type = nanos6_cluster_device\<rparr>\<rparr>
       (Some \<lparr>mp_addr = 2, mp_index = 1, mp_type = nanos6_cluster_device\<rparr>)
       (Some \<lparr>mp_addr = 0, mp_index = -42, mp_type = nanos6_host_device\<rparr>)
       (4096, 64)
       \<lparr>accessType = REDUCTION_ACCESS_TYPE, accessWeak = False,
        accessRegion = (4096, 64), accessLocation = None,
        outputLocation = None, validNamespaceSelf = None\<rparr>
       False
     = Inr (Step :: unit Step,
       \<lparr>accessType = REDUCTION_ACCESS_TYPE, accessWeak = False,
        accessRegion = (4096, 64), accessLocation = None,
        outputLocation = None, validNamespaceSelf = None\<rparr>)"
  using createDataCopyStep_special_access_null
    [of "\<lparr>accessType = REDUCTION_ACCESS_TYPE, accessWeak = False,
        accessRegion = (4096, 64), accessLocation = None,
        outputLocation = None, validNamespaceSelf = None\<rparr>"
        labelOrderValue
        "\<lparr>directoryMemoryPlace = \<lparr>mp_addr = 0, mp_index = -42, mp_type = nanos6_host_device\<rparr>,
        inClusterMode = True,
        currentMemoryNode = \<lparr>mp_addr = 1, mp_index = 0, mp_type = nanos6_cluster_device\<rparr>\<rparr>"
        "Some \<lparr>mp_addr = 2, mp_index = 1, mp_type = nanos6_cluster_device\<rparr>"
        "Some \<lparr>mp_addr = 0, mp_index = -42, mp_type = nanos6_host_device\<rparr>"
        "(4096, 64)" False]
  by simp

text \<open>
  For an access of any other type the two assertions decide whether the target is
  accepted: they stop the call exactly when the target is null or is the directory's
  memory place.
\<close>

lemma createDataCopyStep_asserts_target:
  assumes "accessType access \<noteq> REDUCTION_ACCESS_TYPE"
    and "accessType access \<noteq> COMMUTATIVE_ACCESS_TYPE"
    and "accessType access \<noteq> CONCURRENT_ACCESS_TYPE"
  shows "(\<exists>msg. (createDataCopyStep deviceValue env src tgt region access isTaskwait
                  :: error + (unit Step \<times> DataAccess)) = Inl (AssertionFailed msg))
           = (tgt = None \<or> isDirectoryMemoryPlace env tgt)"
  using assms
  by (cases tgt)
     (auto simp add: createDataCopyStep_def Let_def isDirectoryMemoryPlace_def
           split: option.splits)

text \<open>
  C10. Called with a null compute place, \<open>createNotificationStep\<close> does what it does
  for a host compute place and returns a host notification step; it returns a cluster
  notification step exactly for a cluster compute place; for a compute place of any
  other kind it stops with the fatal error.
\<close>

theorem createNotificationStep_by_kind:
  "createNotificationStep cb None = Inr (HostNotificationStep cb)
   \<and> (cp_type cph = nanos6_host_device \<longrightarrow>
        createNotificationStep cb (Some cph) = createNotificationStep cb None)
   \<and> (createNotificationStep cb cpo = Inr (ClusterNotificationStep cb)) =
        (\<exists>cp. cpo = Some cp \<and> cp_type cp = nanos6_cluster_device)
   \<and> (cp_type cpd \<noteq> nanos6_host_device \<longrightarrow> cp_type cpd \<noteq> nanos6_cluster_device \<longrightarrow>
        createNotificationStep cb (Some cpd) =
          Inl (FatalError ''Execution workflow does not support this device yet''))"
proof (intro conjI impI)
  show "createNotificationStep cb None = Inr (HostNotificationStep cb)"
    by (simp add: createNotificationStep_def)
next
  assume "cp_type cph = nanos6_host_device"
  then show "createNotificationStep cb (Some cph) = createNotificationStep cb None"
    by (simp add: createNotificationStep_def)
next
  show "(createNotificationStep cb cpo = Inr (ClusterNotificationStep cb)) =
          (\<exists>cp. cpo = Some cp \<and> cp_type cp = nanos6_cluster_device)"
  proof (cases cpo)
    case None
    then show ?thesis by (simp add: createNotificationStep_def)
  next
    case (Some cp)
    then show ?thesis
      by (cases "cp_type cp") (simp_all add: createNotificationStep_def)
  qed
next
  assume "cp_type cpd \<noteq> nanos6_host_device" "cp_type cpd \<noteq> nanos6_cluster_device"
  then show "createNotificationStep cb (Some cpd) =
               Inl (FatalError ''Execution workflow does not support this device yet'')"
    by (cases "cp_type cpd") (simp_all add: createNotificationStep_def)
qed

theorem createNotificationStep_by_kind_witness:
  "createNotificationStep (7::nat) None = Inr (HostNotificationStep 7)
   \<and> cp_type \<lparr>cp_addr = 1, cp_type = nanos6_host_device\<rparr> = nanos6_host_device
   \<and> createNotificationStep (7::nat) (Some \<lparr>cp_addr = 1, cp_type = nanos6_host_device\<rparr>)
       = Inr (HostNotificationStep 7)
   \<and> createNotificationStep (7::nat) (Some \<lparr>cp_addr = 2, cp_type = nanos6_cluster_device\<rparr>)
       = Inr (ClusterNotificationStep 7)
   \<and> cp_type \<lparr>cp_addr = 3, cp_type = nanos6_cuda_device\<rparr> \<noteq> nanos6_host_device
   \<and> cp_type \<lparr>cp_addr = 3, cp_type = nanos6_cuda_device\<rparr> \<noteq> nanos6_cluster_device
   \<and> createNotificationStep (7::nat) (Some \<lparr>cp_addr = 3, cp_type = nanos6_cuda_device\<rparr>)
       = Inl (FatalError ''Execution workflow does not support this device yet'')"
  using createNotificationStep_by_kind
    [of "7::nat" "\<lparr>cp_addr = 1, cp_type = nanos6_host_device\<rparr>"
        "Some \<lparr>cp_addr = 2, cp_type = nanos6_cluster_device\<rparr>"
        "\<lparr>cp_addr = 3, cp_type = nanos6_cuda_device\<rparr>"]
  by simp

section \<open>Properties of the notification callback\<close>

text \<open>
  C1, as the claim states it, fails: the callback deletes the workflow also when
  \<open>markAsFinished\<close> has returned false. Here the workflow 7 is allocated before the
  callback runs for a task that must wait, and is gone after it, while the task still
  points to it and no finalisation call has been made.
\<close>

theorem notificationCallback_waiting_task_counterexample:
  "7 \<in> liveWorkflows \<lparr>liveWorkflows = {7}, taskWorkflow = Some 7\<rparr>
   \<and> notificationCallback 7 None (Some (Some 0)) False False
       \<lparr>liveWorkflows = {7}, taskWorkflow = Some 7\<rparr>
     = ([UnregisterLocallyPropagatedTaskDataAccesses (Some 0) (CPUDependencyDataOf 0),
         MarkAsFinished (Some 0) False,
         DeleteWorkflow 7],
        \<lparr>liveWorkflows = {}, taskWorkflow = Some 7\<rparr>)"
  by (simp add: notificationCallback_def currentCPU_def hpDependencyData_def Let_def)

text \<open>
  C1, amended. The callback deletes its workflow as its last action whatever
  \<open>markAsFinished\<close> returns, and leaves the task's pointer to the workflow as it was.
  When \<open>markAsFinished\<close> returns false, the callback makes no call of the finalisation
  sequence: it unregisters the locally propagated accesses, calls \<open>markAsFinished\<close>
  and deletes the workflow.
\<close>

theorem notificationCallback_always_deletes_workflow:
  "workflow \<notin> liveWorkflows
      (snd (notificationCallback workflow target currThread finished released heap))
   \<and> taskWorkflow (snd (notificationCallback workflow target currThread finished released heap))
       = taskWorkflow heap
   \<and> last (fst (notificationCallback workflow target currThread finished released heap))
       = DeleteWorkflow workflow
   \<and> fst (notificationCallback workflow target currThread False released heap)
       = [UnregisterLocallyPropagatedTaskDataAccesses (currentCPU currThread)
            (hpDependencyData (currentCPU currThread)),
          MarkAsFinished (currentCPU currThread) False,
          DeleteWorkflow workflow]"
  by (simp add: notificationCallback_def Let_def)

text \<open>
  C2. When \<open>markAsFinished\<close> returns true, \<open>TaskFinalization::taskFinished\<close> is called
  after the registrar has started to unregister the accesses, before \<open>markAsReleased\<close>
  is called and before the registrar propagates satisfiability, and both of these do
  happen; \<open>disposeTask\<close> is called exactly when \<open>markAsReleased\<close> has returned true, and
  then after it.
\<close>

theorem notificationCallback_finalization_order:
  "occursBefore (UnregisterTaskDataAccesses (currentCPU currThread)
                   (hpDependencyData (currentCPU currThread)) target)
                (TaskFinished (currentCPU currThread))
     (fst (notificationCallback workflow target currThread True released heap))
   \<and> occursBefore (TaskFinished (currentCPU currThread)) (MarkAsReleased released)
       (fst (notificationCallback workflow target currThread True released heap))
   \<and> MarkAsReleased released
       \<in> set (fst (notificationCallback workflow target currThread True released heap))
   \<and> occursBefore (TaskFinished (currentCPU currThread)) PropagateSatisfiability
       (fst (notificationCallback workflow target currThread True released heap))
   \<and> PropagateSatisfiability
       \<in> set (fst (notificationCallback workflow target currThread True released heap))
   \<and> (DisposeTask
       \<in> set (fst (notificationCallback workflow target currThread True released heap)))
      = released
   \<and> occursBefore (MarkAsReleased released) DisposeTask
       (fst (notificationCallback workflow target currThread True released heap))"
  by (simp add: notificationCallback_def Let_def occursBefore_def
      unregisterTaskDataAccesses_def taskFinalization_def)

section \<open>Properties of the constructor of SchedulerInterface\<close>

text \<open>
  C4, as the claim states it, fails: with the value \<open>bogus\<close> for the scheduling policy
  the constructor does not stop; it returns the schedulers, made with the FIFO policy.
\<close>

theorem newSchedulerInterface_malformed_policy_counterexample:
  "newSchedulerInterface
     \<lparr>USE_CUDA = False, USE_OPENACC = False, NANOS6_OPENCL = False, USE_FPGA = False\<rparr>
     \<lparr>schedulingPolicyVar = ''bogus'', enableImmediateSuccessorVar = True,
      enablePriorityVar = True, totalCPUs = 4, cudaComputePlaces = 0,
      openaccComputePlaces = 0\<rparr>
   = Inr \<lparr>runtimeInfo = [(''schedulingPolicy'', ''SchedulingPolicy'', ''bogus'')],
          hostScheduler = \<lparr>computePlaceCount = 4, schedPolicy = FIFO_POLICY,
                            schedEnablePriority = True,
                            schedEnableImmediateSuccessor = True\<rparr>,
          cudaScheduler = None, openaccScheduler = None\<rparr>"
  by (simp add: newSchedulerInterface_def policyOf_def)

text \<open>
  C4, amended. A value of the scheduling policy other than \<open>LIFO\<close> and \<open>lifo\<close>,
  malformed or not, causes no abort and no diagnostic: the constructor does with it
  exactly what it does with the default \<open>fifo\<close> (the value recorded in the runtime
  information apart), and every scheduler it makes has the FIFO policy.

  The first part of the statement says when the constructor stops at all, for any value
  of the policy: in a build with OpenCL, with the diagnostic of OpenCL, and otherwise in
  a build with FPGA, with the diagnostic of FPGA; neither names the policy.
\<close>

theorem newSchedulerInterface_other_value_is_fifo:
  "(newSchedulerInterface build env = Inl e) =
      ((NANOS6_OPENCL build \<and> e = FatalError ''OpenCL is not supported yet.'')
       \<or> (\<not> NANOS6_OPENCL build \<and> USE_FPGA build
           \<and> e = FatalError ''FPGA is not supported yet.''))
   \<and> (schedulingPolicyVar env \<noteq> ''LIFO'' \<longrightarrow> schedulingPolicyVar env \<noteq> ''lifo'' \<longrightarrow>
        map_sum id (\<lambda>s. s\<lparr>runtimeInfo := []\<rparr>) (newSchedulerInterface build env)
          = map_sum id (\<lambda>s. s\<lparr>runtimeInfo := []\<rparr>)
              (newSchedulerInterface build (env\<lparr>schedulingPolicyVar := ''fifo''\<rparr>))
        \<and> (\<not> NANOS6_OPENCL build \<longrightarrow> \<not> USE_FPGA build \<longrightarrow>
             (\<exists>s. newSchedulerInterface build env = Inr s
                  \<and> schedPolicy (hostScheduler s) = FIFO_POLICY
                  \<and> (cudaScheduler s \<noteq> None) = USE_CUDA build
                  \<and> (openaccScheduler s \<noteq> None) = USE_OPENACC build
                  \<and> (\<forall>d. cudaScheduler s = Some d \<longrightarrow> schedPolicy d = FIFO_POLICY)
                  \<and> (\<forall>d. openaccScheduler s = Some d \<longrightarrow> schedPolicy d = FIFO_POLICY))))"
  by (auto simp add: newSchedulerInterface_def policyOf_def Let_def)

theorem newSchedulerInterface_other_value_is_fifo_witness:
  "schedulingPolicyVar \<lparr>schedulingPolicyVar = ''Lifo'', enableImmediateSuccessorVar = True,
        enablePriorityVar = True, totalCPUs = 4, cudaComputePlaces = 2,
        openaccComputePlaces = 1\<rparr> \<noteq> ''LIFO''
   \<and> schedulingPolicyVar \<lparr>schedulingPolicyVar = ''Lifo'', enableImmediateSuccessorVar = True,
        enablePriorityVar = True, totalCPUs = 4, cudaComputePlaces = 2,
        openaccComputePlaces = 1\<rparr> \<noteq> ''lifo''
   \<and> newSchedulerInterface
       \<lparr>USE_CUDA = True, USE_OPENACC = True, NANOS6_OPENCL = False, USE_FPGA = False\<rparr>
       \<lparr>schedulingPolicyVar = ''Lifo'', enableImmediateSuccessorVar = True,
        enablePriorityVar = True, totalCPUs = 4, cudaComputePlaces = 2,
        openaccComputePlaces = 1\<rparr>
     = Inr \<lparr>runtimeInfo = [(''schedulingPolicy'', ''SchedulingPolicy'', ''Lifo'')],
            hostScheduler =
              \<lparr>computePlaceCount = 4, schedPolicy = FIFO_POLICY,
                schedEnablePriority = True, schedEnableImmediateSuccessor = True\<rparr>,
            cudaScheduler =
              Some \<lparr>computePlaceCount = 2, schedPolicy = FIFO_POLICY,
                schedEnablePriority = True, schedEnableImmediateSuccessor = True\<rparr>,
            openaccScheduler =
              Some \<lparr>computePlaceCount = 1, schedPolicy = FIFO_POLICY,
                schedEnablePriority = True, schedEnableImmediateSuccessor = True\<rparr>\<rparr>
   \<and> newSchedulerInterface
       \<lparr>USE_CUDA = False, USE_OPENACC = False, NANOS6_OPENCL = False, USE_FPGA = False\<rparr>
       \<lparr>schedulingPolicyVar = ''Lifo'', enableImmediateSuccessorVar = True,
        enablePriorityVar = True, totalCPUs = 4, cudaComputePlaces = 2,
        openaccComputePlaces = 1\<rparr>
     = Inr \<lparr>runtimeInfo = [(''schedulingPolicy'', ''SchedulingPolicy'', ''Lifo'')],
            hostScheduler =
              \<lparr>computePlaceCount = 4, schedPolicy = FIFO_POLICY,
                schedEnablePriority = True, schedEnableImmediateSuccessor = True\<rparr>,
            cudaScheduler =
              None,
            openaccScheduler =
              None\<rparr>
   \<and> newSchedulerInterface
       \<lparr>USE_CUDA = False, USE_OPENACC = False, NANOS6_OPENCL = True, USE_FPGA = False\<rparr>
       \<lparr>schedulingPolicyVar = ''Lifo'', enableImmediateSuccessorVar = True,
        enablePriorityVar = True, totalCPUs = 4, cudaComputePlaces = 2,
        openaccComputePlaces = 1\<rparr>
     = Inl (FatalError ''OpenCL is not supported yet.'')
   \<and> newSchedulerInterface
       \<lparr>USE_CUDA = False, USE_OPENACC = False, NANOS6_OPENCL = False, USE_FPGA = True\<rparr>
       \<lparr>schedulingPolicyVar = ''Lifo'', enableImmediateSuccessorVar = True,
        enablePriorityVar = True, totalCPUs = 4, cudaComputePlaces = 2,
        openaccComputePlaces = 1\<rparr>
     = Inl (FatalError ''FPGA is not supported yet.'')
   \<and> newSchedulerInterface
       \<lparr>USE_CUDA = True, USE_OPENACC = False, NANOS6_OPENCL = True, USE_FPGA = True\<rparr>
       \<lparr>schedulingPolicyVar = ''Lifo'', enableImmediateSuccessorVar = True,
        enablePriorityVar = True, totalCPUs = 4, cudaComputePlaces = 2,
        openaccComputePlaces = 1\<rparr>
     = Inl (FatalError ''OpenCL is not supported yet.'')
   \<and> newSchedulerInterface
       \<lparr>USE_CUDA = False, USE_OPENACC = False, NANOS6_OPENCL = False, USE_FPGA = True\<rparr>
       \<lparr>schedulingPolicyVar = ''LIFO'', enableImmediateSuccessorVar = True,
        enablePriorityVar = True, totalCPUs = 4, cudaComputePlaces = 2,
        openaccComputePlaces = 1\<rparr>
     = Inl (FatalError ''FPGA is not supported yet.'')
   \<and> newSchedulerInterface
       \<lparr>USE_CUDA = False, USE_OPENACC = False, NANOS6_OPENCL = False, USE_FPGA = False\<rparr>
       \<lparr>schedulingPolicyVar = ''LIFO'', enableImmediateSuccessorVar = True,
        enablePriorityVar = True, totalCPUs = 4, cudaComputePlaces = 2,
        openaccComputePlaces = 1\<rparr>
     = Inr \<lparr>runtimeInfo = [(''schedulingPolicy'', ''SchedulingPolicy'', ''LIFO'')],
            hostScheduler =
              \<lparr>computePlaceCount = 4, schedPolicy = LIFO_POLICY,
                schedEnablePriority = True, schedEnableImmediateSuccessor = True\<rparr>,
            cudaScheduler =
              None,
            openaccScheduler =
              None\<rparr>"
  using newSchedulerInterface_other_value_is_fifo
    [of "\<lparr>USE_CUDA = True, USE_OPENACC = True, NANOS6_OPENCL = False, USE_FPGA = False\<rparr>"
        "\<lparr>schedulingPolicyVar = ''Lifo'', enableImmediateSuccessorVar = True,
        enablePriorityVar = True, totalCPUs = 4, cudaComputePlaces = 2,
        openaccComputePlaces = 1\<rparr>"
        "FatalError ''''"]
    newSchedulerInterface_other_value_is_fifo
    [of "\<lparr>USE_CUDA = False, USE_OPENACC = False, NANOS6_OPENCL = False, USE_FPGA = False\<rparr>"
        "\<lparr>schedulingPolicyVar = ''Lifo'', enableImmediateSuccessorVar = True,
        enablePriorityVar = True, totalCPUs = 4, cudaComputePlaces = 2,
        openaccComputePlaces = 1\<rparr>"
        "FatalError ''''"]
    newSchedulerInterface_other_value_is_fifo
    [of "\<lparr>USE_CUDA = False, USE_OPENACC = False, NANOS6_OPENCL = True, USE_FPGA = False\<rparr>"
        "\<lparr>schedulingPolicyVar = ''Lifo'', enableImmediateSuccessorVar = True,
        enablePriorityVar = True, totalCPUs = 4, cudaComputePlaces = 2,
        openaccComputePlaces = 1\<rparr>"
        "FatalError ''OpenCL is not supported yet.''"]
    newSchedulerInterface_other_value_is_fifo
    [of "\<lparr>USE_CUDA = False, USE_OPENACC = False, NANOS6_OPENCL = False, USE_FPGA = True\<rparr>"
        "\<lparr>schedulingPolicyVar = ''Lifo'', enableImmediateSuccessorVar = True,
        enablePriorityVar = True, totalCPUs = 4, cudaComputePlaces = 2,
        openaccComputePlaces = 1\<rparr>"
        "FatalError ''FPGA is not supported yet.''"]
    newSchedulerInterface_other_value_is_fifo
    [of "\<lparr>USE_CUDA = True, USE_OPENACC = False, NANOS6_OPENCL = True, USE_FPGA = True\<rparr>"
        "\<lparr>schedulingPolicyVar = ''Lifo'', enableImmediateSuccessorVar = True,
        enablePriorityVar = True, totalCPUs = 4, cudaComputePlaces = 2,
        openaccComputePlaces = 1\<rparr>"
        "FatalError ''OpenCL is not supported yet.''"]
    newSchedulerInterface_other_value_is_fifo
    [of "\<lparr>USE_CUDA = False, USE_OPENACC = False, NANOS6_OPENCL = False, USE_FPGA = True\<rparr>"
        "\<lparr>schedulingPolicyVar = ''LIFO'', enableImmediateSuccessorVar = True,
        enablePriorityVar = True, totalCPUs = 4, cudaComputePlaces = 2,
        openaccComputePlaces = 1\<rparr>"
        "FatalError ''FPGA is not supported yet.''"]
    newSchedulerInterface_other_value_is_fifo
    [of "\<lparr>USE_CUDA = False, USE_OPENACC = False, NANOS6_OPENCL = False, USE_FPGA = False\<rparr>"
        "\<lparr>schedulingPolicyVar = ''LIFO'', enableImmediateSuccessorVar = True,
        enablePriorityVar = True, totalCPUs = 4, cudaComputePlaces = 2,
        openaccComputePlaces = 1\<rparr>"
        "FatalError ''''"]
  by (simp add: newSchedulerInterface_def policyOf_def)

section \<open>Properties of the leaf scheduler\<close>

text \<open>What \<open>getTaskBatch\<close> hands out and what it leaves.\<close>

lemma queue_getTaskBatch_length_fst:
  "length (fst (queue_getTaskBatch policy (int n) q)) = min n (length q)"
  by (cases policy) (simp_all add: queue_getTaskBatch_def Let_def)

lemma queue_getTaskBatch_length_snd:
  "length (snd (queue_getTaskBatch policy (int n) q)) = length q - min n (length q)"
  by (cases policy) (simp_all add: queue_getTaskBatch_def Let_def)

lemma queue_getTaskBatch_set:
  "set (fst (queue_getTaskBatch policy elements q)) \<union> set (snd (queue_getTaskBatch policy elements q))
     = set q"
proof (cases policy)
  case FIFO_POLICY
  have "set (drop k q) \<union> set (take k q) = set q" for k
    using set_append [of "take k q" "drop k q"] by (simp add: Un_commute)
  with FIFO_POLICY show ?thesis
    by (simp add: queue_getTaskBatch_def Let_def)
next
  case LIFO_POLICY
  have "set (take k q) \<union> set (drop k q) = set q" for k
    using set_append [of "take k q" "drop k q"] by simp
  with LIFO_POLICY show ?thesis
    by (simp add: queue_getTaskBatch_def Let_def)
qed

lemma enqueueTask_no_overflow:
  assumes "length (queue l) + 1 \<le> queueThreshold l"
  shows "enqueueTask task hint l = l\<lparr>queue := queue l @ [task]\<rparr>"
  using assms by (simp add: enqueueTask_def queue_addTask_def)

lemma handleQueueOverflow_nonempty:
  assumes "queue l \<noteq> []"
  shows "parentBatches (handleQueueOverflow l) =
           parentBatches l @ [fst (queue_getTaskBatch (queuePolicy l)
                                (int (max (queueThreshold l div 2) 1)) (queue l))]"
    and "queue (handleQueueOverflow l) =
           snd (queue_getTaskBatch (queuePolicy l) (int (max (queueThreshold l div 2) 1)) (queue l))"
    and "pollingSlot (handleQueueOverflow l) = pollingSlot l"
proof -
  let ?th = "max (queueThreshold l div 2) 1"
  have th: "(if queueThreshold l div 2 = 0 then 1 else queueThreshold l div 2) = ?th"
    by (simp add: max_def)
  obtain b r where br: "queue_getTaskBatch (queuePolicy l) (int ?th) (queue l) = (b, r)"
    by (cases "queue_getTaskBatch (queuePolicy l) (int ?th) (queue l)")
  have "length b = min ?th (length (queue l))"
    using queue_getTaskBatch_length_fst [of "queuePolicy l" ?th "queue l"] br by simp
  with assms have "0 < length b" by (cases "queue l") simp_all
  with br th
  show "parentBatches (handleQueueOverflow l) =
           parentBatches l @ [fst (queue_getTaskBatch (queuePolicy l) (int ?th) (queue l))]"
    and "queue (handleQueueOverflow l) =
           snd (queue_getTaskBatch (queuePolicy l) (int ?th) (queue l))"
    and "pollingSlot (handleQueueOverflow l) = pollingSlot l"
    by (simp_all add: handleQueueOverflow_def Let_def)
qed

lemma enqueueTask_overflow:
  assumes "length (queue l) + 1 > queueThreshold l"
  shows "parentBatches (enqueueTask task hint l) =
           parentBatches l @ [fst (queue_getTaskBatch (queuePolicy l)
                                (int (max (queueThreshold l div 2) 1)) (queue l @ [task]))]"
    and "queue (enqueueTask task hint l) =
           snd (queue_getTaskBatch (queuePolicy l) (int (max (queueThreshold l div 2) 1))
                  (queue l @ [task]))"
proof -
  let ?l' = "l\<lparr>queue := queue l @ [task]\<rparr>"
  have e: "enqueueTask task hint l = handleQueueOverflow ?l'"
    using assms by (simp add: enqueueTask_def queue_addTask_def)
  have ne: "queue ?l' \<noteq> []" by simp
  show "parentBatches (enqueueTask task hint l) =
           parentBatches l @ [fst (queue_getTaskBatch (queuePolicy l)
                                (int (max (queueThreshold l div 2) 1)) (queue l @ [task]))]"
    using handleQueueOverflow_nonempty(1) [OF ne] e by simp
  show "queue (enqueueTask task hint l) =
           snd (queue_getTaskBatch (queuePolicy l) (int (max (queueThreshold l div 2) 1))
                  (queue l @ [task]))"
    using handleQueueOverflow_nonempty(2) [OF ne] e by simp
qed

lemma addTask_enqueues:
  assumes "(hasComputePlace \<and> \<not> idle l) \<or> (\<not> hasComputePlace \<and> pollingSlot l \<noteq> None)"
  shows "addTask task hasComputePlace hint l = Inr ((enqueueTask task hint l)\<lparr>rebalance := False\<rparr>)"
proof (cases hasComputePlace)
  case True
  with assms show ?thesis by (simp add: addTask_def)
next
  case False
  with assms obtain t where "pollingSlot l = Some t" by auto
  with False have "addTask task hasComputePlace hint l
      = Inr ((enqueueTask task hint (l\<lparr>pollingSlot := pollingSlot l\<rparr>))\<lparr>rebalance := False\<rparr>)"
    by (simp add: addTask_def slot_setTask_def)
  then show ?thesis by simp
qed

text \<open>
  A queue that is within its threshold stays within it when \<open>addTask\<close> inserts a
  task: the overflow takes at least one task away.
\<close>

lemma queueThreshold_enqueueTask:
  "queueThreshold (enqueueTask task hint l) = queueThreshold l"
  by (simp add: enqueueTask_def handleQueueOverflow_def queue_addTask_def Let_def
      split: prod.splits)

lemma addTask_keeps_queue_within_threshold:
  assumes enq: "(hasComputePlace \<and> \<not> idle l) \<or> (\<not> hasComputePlace \<and> pollingSlot l \<noteq> None)"
    and within: "length (queue l) \<le> queueThreshold l"
  shows "\<exists>l'. addTask task hasComputePlace hint l = Inr l'
          \<and> queueThreshold l' = queueThreshold l
          \<and> length (queue l') \<le> queueThreshold l'"
proof -
  let ?l' = "(enqueueTask task hint l)\<lparr>rebalance := False\<rparr>"
  let ?t = "queueThreshold l"
  let ?th = "max (?t div 2) 1"
  have r: "addTask task hasComputePlace hint l = Inr ?l'"
    using addTask_enqueues [OF enq] .
  have t: "queueThreshold ?l' = ?t"
    by (simp add: queueThreshold_enqueueTask)
  have "length (queue ?l') \<le> ?t"
  proof (cases "length (queue l) + 1 \<le> ?t")
    case True
    then show ?thesis by (simp add: enqueueTask_no_overflow)
  next
    case False
    with within have len: "length (queue l) = ?t" and gt: "length (queue l) + 1 > ?t"
      by simp_all
    have "length (queue ?l') = length (queue l @ [task]) - min ?th (length (queue l @ [task]))"
      using enqueueTask_overflow(2) [OF gt, of task hint]
        queue_getTaskBatch_length_snd [of "queuePolicy l" ?th "queue l @ [task]"]
      by simp
    with len show ?thesis by simp
  qed
  with r t show ?thesis by simp
qed

text \<open>
  C3, as the claim states it, fails: a batch handed up by the overflow can leave more
  tasks than the threshold. A leaf with threshold 2 and a taken polling slot receives a
  batch of six tasks from its parent, which all go to the queue; the next \<open>addTask\<close>
  hands the batch of one task to the parent and leaves six tasks in the queue.
\<close>

theorem addTask_post_handoff_counterexample:
  "addTaskBatch True [1, 2, 3, 4, 5, 6]
       \<lparr>queueThreshold = 2, rebalance = False, pollingSlot = Some 9, queue = [],
        queuePolicy = FIFO_POLICY, idle = False, parentBatches = [], resumeIdleCalls = 0\<rparr>
     = Inr \<lparr>queueThreshold = 2, rebalance = False, pollingSlot = Some 9, queue = [1, 2, 3, 4, 5, 6],
        queuePolicy = FIFO_POLICY, idle = False, parentBatches = [], resumeIdleCalls = 0\<rparr>
   \<and> addTask 7 True ()
       \<lparr>queueThreshold = 2, rebalance = False, pollingSlot = Some 9, queue = [1, 2, 3, 4, 5, 6],
        queuePolicy = FIFO_POLICY, idle = False, parentBatches = [], resumeIdleCalls = 0\<rparr>
     = Inr \<lparr>queueThreshold = 2, rebalance = False, pollingSlot = Some 9, queue = [1, 2, 3, 4, 5, 6],
        queuePolicy = FIFO_POLICY, idle = False, parentBatches = [7] # [], resumeIdleCalls = 0\<rparr>
   \<and> \<not> length (queue \<lparr>queueThreshold = 2, rebalance = False, pollingSlot = Some 9, queue = [1, 2, 3, 4, 5, 6],
        queuePolicy = FIFO_POLICY, idle = False, parentBatches = [7] # [], resumeIdleCalls = 0\<rparr>)
        \<le> queueThreshold \<lparr>queueThreshold = 2, rebalance = False, pollingSlot = Some 9, queue = [1, 2, 3, 4, 5, 6],
        queuePolicy = FIFO_POLICY, idle = False, parentBatches = [7] # [], resumeIdleCalls = 0\<rparr>"
  by (simp add: addTaskBatch_def addTask_def enqueueTask_def queue_addTask_def
      queue_addTaskBatch_def handleQueueOverflow_def queue_getTaskBatch_def slot_setTask_def
      Let_def)

text \<open>
  C3, amended. Let the task be one that \<open>addTask\<close> puts into the queue (the caller is on
  the CPU of a leaf that is not idle, or it is not and the polling slot is taken), and
  let \<open>t\<close> be the threshold. If the queue then holds at most \<open>t\<close> tasks, exactly \<open>t\<close>
  included, nothing is handed to the parent. If it then holds more than \<open>t\<close> tasks,
  exactly one batch is handed to the parent; it has \<open>max (t div 2) 1\<close> tasks, it and the
  queue left behind share out the tasks that were in the queue, and the queue left
  behind holds at most \<open>t\<close> tasks exactly when the queue held at most
  \<open>t + max (t div 2) 1\<close> tasks after the insertion; so it does when the insertion
  brought the queue to \<open>t + 1\<close> tasks.
\<close>

theorem addTask_threshold_overflow:
  assumes "(hasComputePlace \<and> \<not> idle l) \<or> (\<not> hasComputePlace \<and> pollingSlot l \<noteq> None)"
  shows "\<exists>l'. addTask task hasComputePlace hint l = Inr l'
          \<and> (length (queue l) + 1 \<le> queueThreshold l \<longrightarrow>
                parentBatches l' = parentBatches l \<and> queue l' = queue l @ [task])
          \<and> (queueThreshold l < length (queue l) + 1 \<longrightarrow>
                (\<exists>b. parentBatches l' = parentBatches l @ [b]
                      \<and> length b = max (queueThreshold l div 2) 1
                      \<and> set b \<union> set (queue l') = set (queue l) \<union> {task}
                      \<and> length (queue l') + length b = length (queue l) + 1)
                \<and> (length (queue l') \<le> queueThreshold l) =
                    (length (queue l) + 1
                       \<le> queueThreshold l + max (queueThreshold l div 2) 1))
          \<and> (length (queue l) + 1 = queueThreshold l + 1 \<longrightarrow>
                length (queue l') \<le> queueThreshold l)"
proof -
  let ?l' = "(enqueueTask task hint l)\<lparr>rebalance := False\<rparr>"
  let ?t = "queueThreshold l"
  let ?s = "length (queue l) + 1"
  let ?th = "max (?t div 2) 1"
  let ?gb = "queue_getTaskBatch (queuePolicy l) (int ?th) (queue l @ [task])"
  have r: "addTask task hasComputePlace hint l = Inr ?l'"
    using addTask_enqueues [OF assms] .
  have within: "?s \<le> ?t \<longrightarrow>
              parentBatches ?l' = parentBatches l \<and> queue ?l' = queue l @ [task]"
    by (simp add: enqueueTask_no_overflow)
  have over: "(\<exists>b. parentBatches ?l' = parentBatches l @ [b]
                      \<and> length b = ?th
                      \<and> set b \<union> set (queue ?l') = set (queue l) \<union> {task}
                      \<and> length (queue ?l') + length b = ?s)
                \<and> (length (queue ?l') \<le> ?t) = (?s \<le> ?t + ?th)"
    if gt: "?t < ?s"
  proof -
    have pb: "parentBatches ?l' = parentBatches l @ [fst ?gb]"
      using enqueueTask_overflow(1) [OF gt] by simp
    have q: "queue ?l' = snd ?gb"
      using enqueueTask_overflow(2) [OF gt] by simp
    have thle: "?th \<le> ?s" using gt by simp
    have lb: "length (fst ?gb) = ?th"
      using queue_getTaskBatch_length_fst [of "queuePolicy l" ?th "queue l @ [task]"] thle
      by simp
    have lq: "length (snd ?gb) = ?s - ?th"
      using queue_getTaskBatch_length_snd [of "queuePolicy l" ?th "queue l @ [task]"] thle
      by simp
    have st: "set (fst ?gb) \<union> set (snd ?gb) = set (queue l) \<union> {task}"
      using queue_getTaskBatch_set [of "queuePolicy l" "int ?th" "queue l @ [task]"] by simp
    have sum: "length (snd ?gb) + length (fst ?gb) = ?s"
      using lb lq thle by simp
    have shift: "(a \<le> t) = (s \<le> t + h)" if "h \<le> s" and "a = s - h" for a s t h :: nat
      using that by auto
    have bound: "(length (snd ?gb) \<le> ?t) = (?s \<le> ?t + ?th)"
      using shift [OF thle lq] .
    show ?thesis
      using pb q lb st sum bound by simp
  qed
  have next_above: "?s = ?t + 1 \<longrightarrow> length (queue ?l') \<le> ?t"
  proof
    assume eq: "?s = ?t + 1"
    then have "?t < ?s" by simp
    from over [OF this] have "(length (queue ?l') \<le> ?t) = (?s \<le> ?t + ?th)" by blast
    moreover have "?s \<le> ?t + ?th" using eq by simp
    ultimately show "length (queue ?l') \<le> ?t" by blast
  qed
  from r within over next_above show ?thesis by blast
qed

theorem addTask_threshold_overflow_witness:
  "pollingSlot \<lparr>queueThreshold = 4, rebalance = False, pollingSlot = Some 9, queue = [1, 2, 3],
        queuePolicy = LIFO_POLICY, idle = True, parentBatches = [], resumeIdleCalls = 0\<rparr> \<noteq> None
   \<and> addTask 4 False ()
       \<lparr>queueThreshold = 4, rebalance = False, pollingSlot = Some 9, queue = [1, 2, 3],
        queuePolicy = LIFO_POLICY, idle = True, parentBatches = [], resumeIdleCalls = 0\<rparr>
     = Inr \<lparr>queueThreshold = 4, rebalance = False, pollingSlot = Some 9, queue = [1, 2, 3, 4],
        queuePolicy = LIFO_POLICY, idle = True, parentBatches = [], resumeIdleCalls = 0\<rparr>
   \<and> \<not> idle \<lparr>queueThreshold = 4, rebalance = True, pollingSlot = None, queue = [1, 2, 3, 4],
        queuePolicy = FIFO_POLICY, idle = False, parentBatches = [], resumeIdleCalls = 0\<rparr>
   \<and> addTask 5 True ()
       \<lparr>queueThreshold = 4, rebalance = True, pollingSlot = None, queue = [1, 2, 3, 4],
        queuePolicy = FIFO_POLICY, idle = False, parentBatches = [], resumeIdleCalls = 0\<rparr>
     = Inr \<lparr>queueThreshold = 4, rebalance = False, pollingSlot = None, queue = [1, 2, 3],
        queuePolicy = FIFO_POLICY, idle = False, parentBatches = [4, 5] # [], resumeIdleCalls = 0\<rparr>
   \<and> \<not> idle \<lparr>queueThreshold = 2, rebalance = False, pollingSlot = Some 9, queue = [1, 2, 3, 4, 5, 6],
        queuePolicy = FIFO_POLICY, idle = False, parentBatches = [], resumeIdleCalls = 0\<rparr>
   \<and> addTask 7 True ()
       \<lparr>queueThreshold = 2, rebalance = False, pollingSlot = Some 9, queue = [1, 2, 3, 4, 5, 6],
        queuePolicy = FIFO_POLICY, idle = False, parentBatches = [], resumeIdleCalls = 0\<rparr>
     = Inr \<lparr>queueThreshold = 2, rebalance = False, pollingSlot = Some 9, queue = [1, 2, 3, 4, 5, 6],
        queuePolicy = FIFO_POLICY, idle = False, parentBatches = [7] # [], resumeIdleCalls = 0\<rparr>"
  using addTask_threshold_overflow
    [of False "\<lparr>queueThreshold = 4, rebalance = False, pollingSlot = Some 9, queue = [1, 2, 3],
        queuePolicy = LIFO_POLICY, idle = True, parentBatches = [], resumeIdleCalls = 0\<rparr>" 4 "()"]
    addTask_threshold_overflow
    [of True "\<lparr>queueThreshold = 4, rebalance = True, pollingSlot = None, queue = [1, 2, 3, 4],
        queuePolicy = FIFO_POLICY, idle = False, parentBatches = [], resumeIdleCalls = 0\<rparr>" 5 "()"]
    addTask_threshold_overflow
    [of True "\<lparr>queueThreshold = 2, rebalance = False, pollingSlot = Some 9, queue = [1, 2, 3, 4, 5, 6],
        queuePolicy = FIFO_POLICY, idle = False, parentBatches = [], resumeIdleCalls = 0\<rparr>" 7 "()"]
  by (simp add: addTask_def enqueueTask_def queue_addTask_def handleQueueOverflow_def
      queue_getTaskBatch_def slot_setTask_def Let_def)

text \<open>
  C7. A non-empty batch delivered by the parent to a leaf whose polling slot is empty:
  afterwards the last task of the batch is in the polling slot, and the tasks before it,
  and no others, have been added to the queue.
\<close>

theorem addTaskBatch_empty_slot:
  assumes "taskBatch \<noteq> []" and "pollingSlot l = None"
  shows "\<exists>l'. addTaskBatch True taskBatch l = Inr l'
          \<and> pollingSlot l' = Some (last taskBatch)
          \<and> queue l' = queue_addTaskBatch (queue l) (butlast taskBatch)
          \<and> set (butlast taskBatch) \<subseteq> set (queue l')
          \<and> length (queue l') + 1 = length (queue l) + length taskBatch"
  using assms
  by (simp add: addTaskBatch_def slot_setTask_def queue_addTaskBatch_def Let_def)

theorem addTaskBatch_empty_slot_witness:
  "[1, 2, 3] \<noteq> ([] :: Task list)
   \<and> pollingSlot \<lparr>queueThreshold = 4, rebalance = False, pollingSlot = None, queue = [7],
                       queuePolicy = FIFO_POLICY, idle = True, parentBatches = [],
                       resumeIdleCalls = 0\<rparr> = None
   \<and> addTaskBatch True [1, 2, 3]
       \<lparr>queueThreshold = 4, rebalance = False, pollingSlot = None, queue = [7],
        queuePolicy = FIFO_POLICY, idle = True, parentBatches = [], resumeIdleCalls = 0\<rparr>
     = Inr \<lparr>queueThreshold = 4, rebalance = False, pollingSlot = Some 3, queue = [7, 1, 2],
            queuePolicy = FIFO_POLICY, idle = True, parentBatches = [], resumeIdleCalls = 1\<rparr>"
  using addTaskBatch_empty_slot
    [of "[1, 2, 3]" "\<lparr>queueThreshold = 4, rebalance = False, pollingSlot = None, queue = [7],
                      queuePolicy = FIFO_POLICY, idle = True, parentBatches = [],
                      resumeIdleCalls = 0\<rparr>"]
  by (simp add: addTaskBatch_def slot_setTask_def queue_addTaskBatch_def Let_def)

end
